theory Spec2Isabelle
  imports Main
begin

section \<open>JavaScript values\<close>

text \<open>
  The connector in \<^verbatim>\<open>src/connectors/notionSync.js\<close> works on plain JavaScript data:
  strings, arrays and object literals.  Objects are association lists in insertion
  order; a key that is not in the list reads as \<open>undefined\<close>.  Numbers are the integers
  only, which is all that truthiness needs here.
\<close>

datatype jsval =
    JUndefined
  | JNull
  | JBool bool
  | JNum int
  | JStr string
  | JArr "jsval list"
  | JObj "(string \<times> jsval) list"

text \<open>
  What a \<^verbatim>\<open>throw\<close> carries: an \<^verbatim>\<open>Error\<close> built by the program or by the remote client,
  or the \<^verbatim>\<open>TypeError\<close> of the runtime.  Both have a \<^verbatim>\<open>message\<close>.
\<close>

datatype jserror =
    Error (message: string)
  | TypeError (message: string)

text \<open>Sequencing of computations that may throw: the first exception wins.\<close>

definition bindE :: "jserror + 'a \<Rightarrow> ('a \<Rightarrow> jserror + 'b) \<Rightarrow> jserror + 'b" where
  "bindE m f = (case m of Inl e \<Rightarrow> Inl e | Inr x \<Rightarrow> f x)"

text \<open>Truthiness, as \<^verbatim>\<open>if (x)\<close>, \<^verbatim>\<open>!x\<close> and \<^verbatim>\<open>x || y\<close> decide it.\<close>

fun truthy :: "jsval \<Rightarrow> bool" where
  "truthy JUndefined = False"
| "truthy JNull = False"
| "truthy (JBool b) = b"
| "truthy (JNum n) = (n \<noteq> 0)"
| "truthy (JStr s) = (s \<noteq> [])"
| "truthy (JArr xs) = True"
| "truthy (JObj fs) = True"

definition js_or :: "jsval \<Rightarrow> jsval \<Rightarrow> jsval" where
  "js_or a b = (if truthy a then a else b)"

fun nullish :: "jsval \<Rightarrow> bool" where
  "nullish JUndefined = True"
| "nullish JNull = True"
| "nullish v = False"

text \<open>A parameter default \<^verbatim>\<open>x = d\<close> applies when the argument is \<open>undefined\<close> only.\<close>

definition param_default :: "jsval \<Rightarrow> jsval \<Rightarrow> jsval" where
  "param_default v d = (if v = JUndefined then d else v)"

text \<open>
  \<open>read_prop v k\<close> is the read \<^verbatim>\<open>v.k\<close> on a value that is neither \<open>undefined\<close> nor \<open>null\<close>, for
  the data field names this module reads (none of them is a prototype property of
  objects, arrays or strings).  \<open>get\<close> is the plain read, which throws on \<open>undefined\<close> and
  \<open>null\<close>; \<open>opt_get\<close> is \<^verbatim>\<open>v?.k\<close>; \<open>opt_idx0\<close> is \<^verbatim>\<open>v?.[0]\<close>.
\<close>

definition read_prop :: "jsval \<Rightarrow> string \<Rightarrow> jsval" where
  "read_prop v k =
     (case v of
        JObj fs \<Rightarrow> (case map_of fs k of Some x \<Rightarrow> x | None \<Rightarrow> JUndefined)
      | _ \<Rightarrow> JUndefined)"

definition show_nullish :: "jsval \<Rightarrow> string" where
  "show_nullish v = (if v = JNull then ''null'' else ''undefined'')"

definition cannot_read :: "jsval \<Rightarrow> string \<Rightarrow> jserror" where
  "cannot_read v k =
     TypeError (''Cannot read properties of '' @ show_nullish v @ '' (reading ''
                @ [CHR 0x27] @ k @ [CHR 0x27] @ '')'')"

definition get :: "jsval \<Rightarrow> string \<Rightarrow> jserror + jsval" where
  "get v k = (if nullish v then Inl (cannot_read v k) else Inr (read_prop v k))"

definition opt_get :: "jsval \<Rightarrow> string \<Rightarrow> jsval" where
  "opt_get v k = (if nullish v then JUndefined else read_prop v k)"

definition idx0 :: "jsval \<Rightarrow> jsval" where
  "idx0 v =
     (case v of
        JArr xs \<Rightarrow> (case xs of [] \<Rightarrow> JUndefined | x # _ \<Rightarrow> x)
      | JStr s \<Rightarrow> (case s of [] \<Rightarrow> JUndefined | c # _ \<Rightarrow> JStr [c])
      | JObj fs \<Rightarrow> read_prop v ''0''
      | _ \<Rightarrow> JUndefined)"

definition opt_idx0 :: "jsval \<Rightarrow> jsval" where
  "opt_idx0 v = (if nullish v then JUndefined else idx0 v)"

text \<open>
  \<^verbatim>\<open>xs.map(f)\<close>: the callback runs on the elements in order and the first exception
  ends the call.  On a value that is not an array there is no \<^verbatim>\<open>map\<close> to call, which is
  a \<^verbatim>\<open>TypeError\<close>; \<open>expr\<close> is the text of the callee, which the runtime quotes.
\<close>

fun mapE :: "('a \<Rightarrow> jserror + 'b) \<Rightarrow> 'a list \<Rightarrow> jserror + 'b list" where
  "mapE f [] = Inr []"
| "mapE f (x # xs) =
     (case f x of
        Inl e \<Rightarrow> Inl e
      | Inr y \<Rightarrow> (case mapE f xs of Inl e \<Rightarrow> Inl e | Inr ys \<Rightarrow> Inr (y # ys)))"

definition call_map :: "string \<Rightarrow> jsval \<Rightarrow> (jsval \<Rightarrow> jserror + jsval) \<Rightarrow> jserror + jsval list" where
  "call_map expr v f =
     (case v of
        JArr xs \<Rightarrow> mapE f xs
      | JUndefined \<Rightarrow> Inl (cannot_read v ''map'')
      | JNull \<Rightarrow> Inl (cannot_read v ''map'')
      | _ \<Rightarrow> Inl (TypeError (expr @ '' is not a function'')))"

text \<open>\<^verbatim>\<open>v?.map(f)\<close>: \<open>undefined\<close> when \<open>v\<close> is \<open>undefined\<close> or \<open>null\<close>, the call otherwise.\<close>

definition opt_call_map :: "string \<Rightarrow> jsval \<Rightarrow> (jsval \<Rightarrow> jserror + jsval) \<Rightarrow> jserror + jsval" where
  "opt_call_map expr v f =
     (if nullish v then Inr JUndefined else bindE (call_map expr v f) (\<lambda>ys. Inr (JArr ys)))"

section \<open>Schema transforms\<close>

text \<open>
  \<^verbatim>\<open>transformMCPToNotion(useCaseData)\<close>: the object literal is evaluated field by field,
  top to bottom.
\<close>

definition transformMCPToNotion :: "jsval \<Rightarrow> jserror + jsval" where
  "transformMCPToNotion useCaseData =
     bindE (get useCaseData ''name'') (\<lambda>name.
     bindE (get useCaseData ''description'') (\<lambda>description.
     bindE (get useCaseData ''status'') (\<lambda>status.
     bindE (get useCaseData ''tags'') (\<lambda>tags.
     bindE (call_map ''(useCaseData.tags || []).map'' (js_or tags (JArr []))
              (\<lambda>tag. Inr (JObj [(''name'', tag)]))) (\<lambda>multi_select.
     Inr (JObj
       [(''Name'', JObj [(''title'',
           JArr [JObj [(''text'', JObj [(''content'', js_or name (JStr ''Untitled''))])]])]),
        (''Description'', JObj [(''rich_text'',
           JArr [JObj [(''text'', JObj [(''content'', js_or description (JStr ''''))])]])]),
        (''Status'', JObj [(''select'', JObj [(''name'', js_or status (JStr ''Draft''))])]),
        (''Tags'', JObj [(''multi_select'', JArr multi_select)])]))))))"

text \<open>
  \<^verbatim>\<open>transformNotionToMCP(notionPage)\<close>.  \<^verbatim>\<open>props.Name\<close> and its three siblings are plain
  reads; everything below them is read through \<^verbatim>\<open>?.\<close>.  The callback \<^verbatim>\<open>tag => tag.name\<close>
  is a plain read again.
\<close>

definition transformNotionToMCP :: "jsval \<Rightarrow> jserror + jsval" where
  "transformNotionToMCP notionPage =
     bindE (get notionPage ''properties'') (\<lambda>props.
     bindE (get notionPage ''id'') (\<lambda>notionPageId.
     bindE (get props ''Name'') (\<lambda>Name.
     bindE (get props ''Description'') (\<lambda>Description.
     bindE (get props ''Status'') (\<lambda>Status.
     bindE (get props ''Tags'') (\<lambda>Tags.
     bindE (opt_call_map ''props.Tags?.multi_select?.map'' (opt_get Tags ''multi_select'')
              (\<lambda>tag. get tag ''name'')) (\<lambda>mapped.
     bindE (get notionPage ''createdTime'') (\<lambda>createdTime.
     bindE (get notionPage ''lastEditedTime'') (\<lambda>lastEditedTime.
     Inr (JObj
       [(''notionPageId'', notionPageId),
        (''name'',
           js_or (opt_get (opt_get (opt_idx0 (opt_get Name ''title'')) ''text'') ''content'')
                 (JStr '''')),
        (''description'',
           js_or (opt_get (opt_get (opt_idx0 (opt_get Description ''rich_text'')) ''text'')
                    ''content'')
                 (JStr '''')),
        (''status'', js_or (opt_get (opt_get Status ''select'') ''name'') (JStr '''')),
        (''tags'', js_or mapped (JArr [])),
        (''createdAt'', createdTime),
        (''updatedAt'', lastEditedTime)]))))))))))"

section \<open>Configuration, client and remote interface\<close>

text \<open>
  \<^verbatim>\<open>notionConfig\<close> is read once from the process environment, where a variable is a
  string or is not set: \<^verbatim>\<open>process.env.NOTION_API_KEY || ''\<close>.
\<close>

record config =
  apiKey :: string
  databaseId :: string

definition env_or :: "string option \<Rightarrow> string \<Rightarrow> string" where
  "env_or v d = (case v of None \<Rightarrow> d | Some s \<Rightarrow> if s \<noteq> [] then s else d)"

definition notionConfig :: "string option \<Rightarrow> string option \<Rightarrow> config" where
  "notionConfig NOTION_API_KEY NOTION_DATABASE_ID =
     \<lparr>apiKey = env_or NOTION_API_KEY [], databaseId = env_or NOTION_DATABASE_ID []\<rparr>"

text \<open>\<^verbatim>\<open>new Client({ auth: notionConfig.apiKey })\<close>.\<close>

datatype client = Client (auth: string)

text \<open>
  The three requests the module sends through the client, each with its argument object:
  \<^verbatim>\<open>notion.databases.query\<close>, \<^verbatim>\<open>notion.pages.update\<close> and \<^verbatim>\<open>notion.pages.create\<close>.
  The remote service is a parameter of the model: given the client, the requests sent so
  far and the request, it answers with a response or rejects with an error.
\<close>

datatype call =
    DatabasesQuery jsval
  | PagesUpdate jsval
  | PagesCreate jsval

type_synonym remote = "client \<Rightarrow> call list \<Rightarrow> call \<Rightarrow> jserror + jsval"

text \<open>
  The state the module's functions share: the module variable \<^verbatim>\<open>notion\<close> (\<open>None\<close> is
  \<^verbatim>\<open>null\<close>) and the requests sent so far, oldest first.  Console output is not part of
  the model.
\<close>

record world =
  notion :: "client option"
  calls :: "call list"

definition initializeClient :: "config \<Rightarrow> world \<Rightarrow> (jserror + client) \<times> world" where
  "initializeClient cfg s =
     (if apiKey cfg = []
      then (Inl (Error ''NOTION_API_KEY environment variable is required''), s)
      else (Inr (Client (apiKey cfg)), s\<lparr>notion := Some (Client (apiKey cfg))\<rparr>))"

text \<open>The first line of both request functions: \<^verbatim>\<open>if (!notion) initializeClient();\<close>\<close>

definition ensure_client :: "config \<Rightarrow> world \<Rightarrow> (jserror + unit) \<times> world" where
  "ensure_client cfg s =
     (if notion s = None
      then (case initializeClient cfg s of
              (Inl e, s') \<Rightarrow> (Inl e, s')
            | (Inr c, s') \<Rightarrow> (Inr (), s'))
      else (Inr (), s))"

text \<open>
  One awaited request on \<^verbatim>\<open>notion\<close>: it is appended to the requests sent and the remote
  service decides its outcome.  \<open>ns\<close> is the namespace read from the client
  (\<^verbatim>\<open>databases\<close> or \<^verbatim>\<open>pages\<close>), which cannot be read from \<^verbatim>\<open>null\<close>.
\<close>

definition remote_call :: "remote \<Rightarrow> string \<Rightarrow> call \<Rightarrow> world \<Rightarrow> (jserror + jsval) \<times> world" where
  "remote_call api ns c s =
     (case notion s of
        None \<Rightarrow> (Inl (cannot_read JNull ns), s)
      | Some cl \<Rightarrow> (api cl (calls s) c, s\<lparr>calls := calls s @ [c]\<rparr>))"

section \<open>Fetch and push\<close>

text \<open>
  \<^verbatim>\<open>fetchNotionRecords(databaseId, filter = null)\<close>.  The \<^verbatim>\<open>catch\<close> block logs and throws
  the error it caught, so an exception leaves the function as it was raised.
\<close>

definition page_record :: "jsval \<Rightarrow> jserror + jsval" where
  "page_record page =
     bindE (get page ''id'') (\<lambda>pid.
     bindE (get page ''properties'') (\<lambda>properties.
     bindE (get page ''created_time'') (\<lambda>created_time.
     bindE (get page ''last_edited_time'') (\<lambda>last_edited_time.
     Inr (JObj [(''id'', pid), (''properties'', properties),
                (''createdTime'', created_time), (''lastEditedTime'', last_edited_time)])))))"

definition fetchNotionRecords ::
  "config \<Rightarrow> remote \<Rightarrow> jsval \<Rightarrow> jsval \<Rightarrow> world \<Rightarrow> (jserror + jsval list) \<times> world" where
  "fetchNotionRecords cfg api dbId filter_arg s =
     (let filter_v = param_default filter_arg JNull in
      case ensure_client cfg s of
        (Inl e, s1) \<Rightarrow> (Inl e, s1)
      | (Inr u, s1) \<Rightarrow>
          (let query0 = [(''database_id'', js_or dbId (JStr (databaseId cfg)))];
               query = (if truthy filter_v then query0 @ [(''filter'', filter_v)] else query0)
           in case remote_call api ''databases'' (DatabasesQuery (JObj query)) s1 of
                (Inl e, s2) \<Rightarrow> (Inl e, s2)
              | (Inr response, s2) \<Rightarrow>
                  (bindE (get response ''results'') (\<lambda>results.
                     call_map ''response.results.map'' results page_record), s2)))"

text \<open>\<^verbatim>\<open>pushNotionRecord(databaseId, data, pageId = null)\<close>.\<close>

definition pushNotionRecord ::
  "config \<Rightarrow> remote \<Rightarrow> jsval \<Rightarrow> jsval \<Rightarrow> jsval \<Rightarrow> world \<Rightarrow> (jserror + jsval) \<times> world" where
  "pushNotionRecord cfg api dbId data pageId_arg s =
     (let pageId = param_default pageId_arg JNull in
      case ensure_client cfg s of
        (Inl e, s1) \<Rightarrow> (Inl e, s1)
      | (Inr u, s1) \<Rightarrow>
          (if truthy pageId
           then remote_call api ''pages''
                  (PagesUpdate (JObj [(''page_id'', pageId), (''properties'', data)])) s1
           else remote_call api ''pages''
                  (PagesCreate (JObj
                     [(''parent'', JObj [(''database_id'', js_or dbId (JStr (databaseId cfg)))]),
                      (''properties'', data)])) s1))"

section \<open>Synchronisation\<close>

text \<open>The value \<^verbatim>\<open>syncNotionData\<close> returns: \<^verbatim>\<open>{ pulled, pushed, errors }\<close>.\<close>

record sync_results =
  pulled :: "jsval list"
  pushed :: "jsval list"
  errors :: "jsval list"

text \<open>
  The body of the inner \<^verbatim>\<open>try\<close>: the arguments are evaluated left to right, then the
  record is pushed.
\<close>

definition push_attempt ::
  "config \<Rightarrow> remote \<Rightarrow> jsval \<Rightarrow> jsval \<Rightarrow> world \<Rightarrow> (jserror + jsval) \<times> world" where
  "push_attempt cfg api dbId rec s =
     (case get rec ''properties'' of
        Inl e \<Rightarrow> (Inl e, s)
      | Inr properties \<Rightarrow>
          (case get rec ''notionPageId'' of
             Inl e \<Rightarrow> (Inl e, s)
           | Inr notionPageId \<Rightarrow>
               pushNotionRecord cfg api dbId properties (js_or notionPageId JNull) s))"

text \<open>
  \<^verbatim>\<open>for (const record of mcpRecords) { try { ... } catch (error) { ... } }\<close>: a pushed
  response is appended to \<^verbatim>\<open>results.pushed\<close>, a caught error to \<^verbatim>\<open>results.errors\<close> as
  \<^verbatim>\<open>{ record, error: error.message }\<close>.
\<close>

definition error_entry :: "jsval \<Rightarrow> jserror \<Rightarrow> jsval" where
  "error_entry rec e = JObj [(''record'', rec), (''error'', JStr (message e))]"

fun push_loop ::
  "config \<Rightarrow> remote \<Rightarrow> jsval \<Rightarrow> jsval list \<Rightarrow> sync_results \<Rightarrow> world \<Rightarrow> sync_results \<times> world" where
  "push_loop cfg api dbId [] results s = (results, s)"
| "push_loop cfg api dbId (rec # rest) results s =
     (case push_attempt cfg api dbId rec s of
        (Inr response, s') \<Rightarrow>
          push_loop cfg api dbId rest (results\<lparr>pushed := pushed results @ [response]\<rparr>) s'
      | (Inl e, s') \<Rightarrow>
          push_loop cfg api dbId rest (results\<lparr>errors := errors results @ [error_entry rec e]\<rparr>) s')"

text \<open>What \<^verbatim>\<open>for ... of\<close> iterates: the elements of an array, the characters of a string.\<close>

definition iterate :: "string \<Rightarrow> jsval \<Rightarrow> jserror + jsval list" where
  "iterate expr v =
     (case v of
        JArr xs \<Rightarrow> Inr xs
      | JStr cs \<Rightarrow> Inr (map (\<lambda>c. JStr [c]) cs)
      | _ \<Rightarrow> Inl (TypeError (expr @ '' is not iterable'')))"

text \<open>
  One property of a destructuring pattern \<^verbatim>\<open>const { k } = v\<close>: the read \<^verbatim>\<open>v.k\<close>, with
  the runtime's own message when \<open>v\<close> is \<open>undefined\<close> or \<open>null\<close>.
\<close>

definition destructure :: "string \<Rightarrow> jsval \<Rightarrow> string \<Rightarrow> jserror + jsval" where
  "destructure expr v k =
     (if nullish v
      then Inl (TypeError (''Cannot destructure property '' @ [CHR 0x27] @ k @ [CHR 0x27]
                           @ '' of '' @ [CHR 0x27] @ expr @ [CHR 0x27]
                           @ '' as it is '' @ show_nullish v @ ''.''))
      else Inr (read_prop v k))"

text \<open>
  \<^verbatim>\<open>syncNotionData(options)\<close>.  The destructuring reads the three options and applies the
  defaults \<^verbatim>\<open>direction = 'pull'\<close> and \<^verbatim>\<open>mcpRecords = []\<close>.  The outer \<^verbatim>\<open>catch\<close> logs and
  throws what it caught.
\<close>

definition syncNotionData ::
  "config \<Rightarrow> remote \<Rightarrow> jsval \<Rightarrow> world \<Rightarrow> (jserror + sync_results) \<times> world" where
  "syncNotionData cfg api options s =
     (case destructure ''options'' options ''databaseId'' of
        Inl e \<Rightarrow> (Inl e, s)
      | Inr dbId \<Rightarrow>
     (case destructure ''options'' options ''direction'' of
        Inl e \<Rightarrow> (Inl e, s)
      | Inr direction_opt \<Rightarrow>
     (case destructure ''options'' options ''mcpRecords'' of
        Inl e \<Rightarrow> (Inl e, s)
      | Inr mcpRecords_opt \<Rightarrow>
     (let direction = param_default direction_opt (JStr ''pull'');
          mcpRecords = param_default mcpRecords_opt (JArr []);
          results = \<lparr>pulled = [], pushed = [], errors = []\<rparr>
      in case (if direction = JStr ''pull'' \<or> direction = JStr ''bidirectional''
               then (case fetchNotionRecords cfg api dbId JUndefined s of
                       (Inl e, s1) \<Rightarrow> (Inl e, s1)
                     | (Inr records, s1) \<Rightarrow> (Inr (results\<lparr>pulled := records\<rparr>), s1))
               else (Inr results, s)) of
           (Inl e, s1) \<Rightarrow> (Inl e, s1)
         | (Inr results1, s1) \<Rightarrow>
             (if direction = JStr ''push'' \<or> direction = JStr ''bidirectional''
              then (case iterate ''mcpRecords'' mcpRecords of
                      Inl e \<Rightarrow> (Inl e, s1)
                    | Inr recs \<Rightarrow>
                        (case push_loop cfg api dbId recs results1 s1 of
                           (results2, s2) \<Rightarrow> (Inr results2, s2)))
              else (Inr results1, s1))))))"

section \<open>Notions used to state the properties\<close>

text \<open>
  The client a request function works with: the cached one, or the one
  \<^verbatim>\<open>initializeClient\<close> builds from the configured key.
\<close>

definition client_of :: "config \<Rightarrow> world \<Rightarrow> client" where
  "client_of cfg s = (case notion s of Some c \<Rightarrow> c | None \<Rightarrow> Client (apiKey cfg))"

text \<open>The error \<^verbatim>\<open>initializeClient\<close> throws when no key is configured.\<close>

definition missing_credential :: jserror where
  "missing_credential = Error ''NOTION_API_KEY environment variable is required''"

text \<open>The one request a push sends, and the one request a fetch sends.\<close>

definition push_request :: "config \<Rightarrow> jsval \<Rightarrow> jsval \<Rightarrow> jsval \<Rightarrow> call" where
  "push_request cfg dbId data pageId =
     (if truthy pageId
      then PagesUpdate (JObj [(''page_id'', pageId), (''properties'', data)])
      else PagesCreate (JObj
             [(''parent'',
               JObj [(''database_id'', if truthy dbId then dbId else JStr (databaseId cfg))]),
              (''properties'', data)]))"

definition query_request :: "config \<Rightarrow> jsval \<Rightarrow> jsval \<Rightarrow> call" where
  "query_request cfg dbId flt =
     DatabasesQuery (JObj
       ((''database_id'', if truthy dbId then dbId else JStr (databaseId cfg))
        # (if truthy flt then [(''filter'', flt)] else [])))"

text \<open>
  A batch seen from outside the loop: \<open>attempts\<close> pairs every record, in input order,
  with the outcome of its push, each push starting in the state the one before left;
  \<open>world_after\<close> is the state after the last one.  \<open>responses\<close> keeps the responses of
  the pushes that succeeded and \<open>failures\<close> the \<^verbatim>\<open>{ record, error }\<close> entries of those that
  failed, both in the order of the attempts.
\<close>

fun attempts ::
  "config \<Rightarrow> remote \<Rightarrow> jsval \<Rightarrow> jsval list \<Rightarrow> world \<Rightarrow> (jsval \<times> (jserror + jsval)) list" where
  "attempts cfg api dbId [] s = []"
| "attempts cfg api dbId (r # rs) s =
     (r, fst (push_attempt cfg api dbId r s))
     # attempts cfg api dbId rs (snd (push_attempt cfg api dbId r s))"

fun world_after :: "config \<Rightarrow> remote \<Rightarrow> jsval \<Rightarrow> jsval list \<Rightarrow> world \<Rightarrow> world" where
  "world_after cfg api dbId [] s = s"
| "world_after cfg api dbId (r # rs) s =
     world_after cfg api dbId rs (snd (push_attempt cfg api dbId r s))"

fun responses :: "(jsval \<times> (jserror + jsval)) list \<Rightarrow> jsval list" where
  "responses [] = []"
| "responses ((r, Inr response) # outs) = response # responses outs"
| "responses ((r, Inl e) # outs) = responses outs"

fun failures :: "(jsval \<times> (jserror + jsval)) list \<Rightarrow> jsval list" where
  "failures [] = []"
| "failures ((r, Inr response) # outs) = failures outs"
| "failures ((r, Inl e) # outs) = error_entry r e # failures outs"

text \<open>
  A nested path is a list of steps, a field name or the first element.  \<open>follow v p\<close> is
  the value at the end of the path, or \<open>None\<close> when the path is missing: some value on
  the way, or the last one, is \<open>undefined\<close> or \<open>null\<close>.
\<close>

datatype step = Key string | First

fun follow :: "jsval \<Rightarrow> step list \<Rightarrow> jsval option" where
  "follow v [] = (if nullish v then None else Some v)"
| "follow v (Key k # p) = (if nullish v then None else follow (read_prop v k) p)"
| "follow v (First # p) = (if nullish v then None else follow (idx0 v) p)"

text \<open>The shapes of the two records: every field may be missing, and has its type if not.\<close>

fun is_string :: "jsval \<Rightarrow> bool" where
  "is_string (JStr s) = True"
| "is_string v = False"

fun is_object :: "jsval \<Rightarrow> bool" where
  "is_object (JObj fs) = True"
| "is_object v = False"

fun opt_string :: "jsval option \<Rightarrow> bool" where
  "opt_string None = True"
| "opt_string (Some v) = is_string v"

fun opt_array :: "(jsval \<Rightarrow> bool) \<Rightarrow> jsval option \<Rightarrow> bool" where
  "opt_array P None = True"
| "opt_array P (Some (JArr xs)) = list_all P xs"
| "opt_array P (Some v) = False"

definition LocalRecord_shape :: "jsval \<Rightarrow> bool" where
  "LocalRecord_shape L \<longleftrightarrow>
     is_object L
     \<and> opt_string (follow L [Key ''name''])
     \<and> opt_string (follow L [Key ''description''])
     \<and> opt_string (follow L [Key ''status''])
     \<and> opt_array is_string (follow L [Key ''tags''])"

definition RemoteRecord_shape :: "jsval \<Rightarrow> bool" where
  "RemoteRecord_shape R \<longleftrightarrow>
     is_object R
     \<and> is_object (read_prop R ''properties'')
     \<and> opt_string (follow (read_prop R ''properties'')
          [Key ''Name'', Key ''title'', First, Key ''text'', Key ''content''])
     \<and> opt_string (follow (read_prop R ''properties'')
          [Key ''Description'', Key ''rich_text'', First, Key ''text'', Key ''content''])
     \<and> opt_string (follow (read_prop R ''properties'')
          [Key ''Status'', Key ''select'', Key ''name''])
     \<and> opt_array is_object (follow (read_prop R ''properties'')
          [Key ''Tags'', Key ''multi_select''])"

text \<open>
  The string at the end of a path, or the default when the path is missing or the
  string empty; the elements of the array at the end of a path, none when it is missing.
\<close>

fun string_or :: "string \<Rightarrow> jsval option \<Rightarrow> jsval" where
  "string_or d (Some (JStr s)) = JStr (if s = [] then d else s)"
| "string_or d v = JStr d"

fun elements :: "jsval option \<Rightarrow> jsval list" where
  "elements (Some (JArr xs)) = xs"
| "elements v = []"

section \<open>A sample environment\<close>

text \<open>
  A configuration with a key and one without, the state of a process that has sent
  nothing yet, and a remote service that refuses queries, refuses to create a page whose
  properties have no \<^verbatim>\<open>Name\<close>, and accepts every other request.
\<close>

definition example_config :: config where
  "example_config = notionConfig (Some ''secret'') (Some ''db-default'')"

definition no_credential :: config where
  "no_credential = notionConfig None (Some ''db-default'')"

definition fresh :: world where
  "fresh = \<lparr>notion = None, calls = []\<rparr>"

definition example_remote :: remote where
  "example_remote cl sent c =
     (case c of
        DatabasesQuery q \<Rightarrow> Inl (Error ''service_unavailable'')
      | PagesUpdate u \<Rightarrow>
          Inr (JObj [(''object'', JStr ''page''), (''id'', read_prop u ''page_id'')])
      | PagesCreate p \<Rightarrow>
          (if nullish (read_prop (read_prop p ''properties'') ''Name'')
           then Inl (Error ''validation_error'')
           else Inr (JObj [(''object'', JStr ''page''), (''id'', JStr ''new'')])))"

text \<open>A second remote service, which answers every query with an empty page of results.\<close>

definition answering_remote :: remote where
  "answering_remote cl sent c =
     (case c of
        DatabasesQuery q \<Rightarrow> Inr (JObj [(''results'', JArr [])])
      | PagesUpdate u \<Rightarrow> example_remote cl sent c
      | PagesCreate p \<Rightarrow> example_remote cl sent c)"

definition record_A :: jsval where
  "record_A = JObj [(''properties'', JObj [(''Name'', JStr ''A'')]),
                    (''notionPageId'', JStr ''page-A'')]"

definition record_B :: jsval where
  "record_B = JObj [(''properties'', JObj [])]"

definition record_C :: jsval where
  "record_C = JObj [(''properties'', JObj [(''Name'', JStr ''C'')]),
                    (''notionPageId'', JStr [])]"

section \<open>Basic facts\<close>

lemmas js_read_defs =
  bindE_def get_def opt_get_def opt_idx0_def idx0_def read_prop_def js_or_def
  call_map_def opt_call_map_def param_default_def

lemmas example_defs =
  example_config_def no_credential_def notionConfig_def env_or_def fresh_def
  example_remote_def record_A_def record_B_def record_C_def

lemmas request_defs =
  fetchNotionRecords_def pushNotionRecord_def ensure_client_def initializeClient_def
  remote_call_def page_record_def

lemmas sync_defs =
  syncNotionData_def destructure_def push_attempt_def error_entry_def iterate_def

lemma bindE_Inr [simp]: "bindE (Inr x) f = f x"
  by (simp add: bindE_def)

lemma bindE_Inl [simp]: "bindE (Inl e) f = Inl e"
  by (simp add: bindE_def)

lemma get_Inr_iff: "get v k = Inr x \<longleftrightarrow> \<not> nullish v \<and> x = read_prop v k"
  by (auto simp: get_def)

lemma get_not_nullish: "\<not> nullish v \<Longrightarrow> get v k = Inr (read_prop v k)"
  by (simp add: get_def)

lemma destructure_not_nullish:
  "\<not> nullish v \<Longrightarrow> destructure expr v k = Inr (read_prop v k)"
  by (simp add: destructure_def)

lemma get_object: "get (JObj fs) k = Inr (read_prop (JObj fs) k)"
  by (simp add: get_def)

lemma mapE_total:
  "(\<And>x. x \<in> set xs \<Longrightarrow> f x = Inr (g x)) \<Longrightarrow> mapE f xs = Inr (map g xs)"
  by (induction xs) simp_all

section \<open>Properties of the schema transforms\<close>

lemma follow_nullish [simp]:
  assumes "nullish v"
  shows "follow v p = None"
proof (cases p)
  case Nil
  with assms show ?thesis by simp
next
  case (Cons a q)
  with assms show ?thesis by (cases a) simp_all
qed

lemma follow_opt_get: "follow (opt_get v k) p = follow v (Key k # p)"
  by (simp add: opt_get_def)

lemma follow_opt_idx0: "follow (opt_idx0 v) p = follow v (First # p)"
  by (simp add: opt_idx0_def)

lemma js_or_string_or:
  "opt_string (follow v []) \<Longrightarrow> js_or v (JStr d) = string_or d (follow v [])"
  by (cases v) (simp_all add: js_or_def)

lemma is_object_get: "is_object t \<Longrightarrow> get t k = Inr (read_prop t k)"
  by (cases t) (simp_all add: get_def)

lemma tags_mapped:
  assumes "opt_array is_object (follow ms [])"
  shows "\<exists>mapped. opt_call_map expr ms (\<lambda>tag. get tag ''name'') = Inr mapped
           \<and> js_or mapped (JArr []) =
               JArr (map (\<lambda>t. read_prop t ''name'') (elements (follow ms [])))"
proof (cases "nullish ms")
  case True
  then show ?thesis by (simp add: opt_call_map_def js_or_def)
next
  case False
  with assms obtain ts where ms: "ms = JArr ts" and ts: "list_all is_object ts"
    by (cases ms) simp_all
  have "mapE (\<lambda>tag. get tag ''name'') ts = Inr (map (\<lambda>t. read_prop t ''name'') ts)"
    using ts by (intro mapE_total) (simp add: list_all_iff is_object_get)
  then show ?thesis
    by (simp add: ms opt_call_map_def call_map_def js_or_def)
qed

lemma remote_to_local_shape:
  assumes "RemoteRecord_shape R"
  shows "transformNotionToMCP R =
     Inr (JObj
       [(''notionPageId'', read_prop R ''id''),
        (''name'', string_or [] (follow (read_prop R ''properties'')
           [Key ''Name'', Key ''title'', First, Key ''text'', Key ''content''])),
        (''description'', string_or [] (follow (read_prop R ''properties'')
           [Key ''Description'', Key ''rich_text'', First, Key ''text'', Key ''content''])),
        (''status'', string_or [] (follow (read_prop R ''properties'')
           [Key ''Status'', Key ''select'', Key ''name''])),
        (''tags'', JArr (map (\<lambda>t. read_prop t ''name'')
           (elements (follow (read_prop R ''properties'')
              [Key ''Tags'', Key ''multi_select''])))),
        (''createdAt'', read_prop R ''createdTime''),
        (''updatedAt'', read_prop R ''lastEditedTime'')])"
proof -
  let ?props = "read_prop R ''properties''"
  from assms have R: "\<not> nullish R" and P: "\<not> nullish ?props"
    by (cases R; cases ?props; simp add: RemoteRecord_shape_def)+
  have chain: "follow ?props (Key k # p) = follow (read_prop ?props k) p" for k p
    using P by simp
  have n: "js_or (opt_get (opt_get (opt_idx0 (opt_get (read_prop ?props ''Name'') ''title''))
                    ''text'') ''content'') (JStr [])
       = string_or [] (follow ?props
           [Key ''Name'', Key ''title'', First, Key ''text'', Key ''content''])"
    using assms unfolding RemoteRecord_shape_def chain
    by (subst js_or_string_or) (simp_all only: follow_opt_get follow_opt_idx0)
  have d: "js_or (opt_get (opt_get (opt_idx0
                    (opt_get (read_prop ?props ''Description'') ''rich_text''))
                    ''text'') ''content'') (JStr [])
       = string_or [] (follow ?props
           [Key ''Description'', Key ''rich_text'', First, Key ''text'', Key ''content''])"
    using assms unfolding RemoteRecord_shape_def chain
    by (subst js_or_string_or) (simp_all only: follow_opt_get follow_opt_idx0)
  have st: "js_or (opt_get (opt_get (read_prop ?props ''Status'') ''select'') ''name'') (JStr [])
       = string_or [] (follow ?props [Key ''Status'', Key ''select'', Key ''name''])"
    using assms unfolding RemoteRecord_shape_def chain
    by (subst js_or_string_or) (simp_all only: follow_opt_get)
  have t: "opt_array is_object (follow (opt_get (read_prop ?props ''Tags'') ''multi_select'') [])"
    using assms unfolding RemoteRecord_shape_def chain
    by (simp only: follow_opt_get)
  have tf: "follow (opt_get (read_prop ?props ''Tags'') ''multi_select'') []
            = follow ?props [Key ''Tags'', Key ''multi_select'']"
    unfolding chain by (simp only: follow_opt_get)
  obtain mapped where
    m: "opt_call_map ''props.Tags?.multi_select?.map''
          (opt_get (read_prop ?props ''Tags'') ''multi_select'') (\<lambda>tag. get tag ''name'')
        = Inr mapped"
    and j: "js_or mapped (JArr []) = JArr (map (\<lambda>t. read_prop t ''name'')
              (elements (follow ?props [Key ''Tags'', Key ''multi_select''])))"
    using tags_mapped [OF t] unfolding tf by blast
  show ?thesis
    unfolding transformNotionToMCP_def
    by (simp add: get_not_nullish [OF R] get_not_nullish [OF P] m j n d st del: follow.simps)
qed

lemma local_to_remote_shape:
  assumes "LocalRecord_shape L"
  shows "transformMCPToNotion L =
     Inr (JObj
       [(''Name'', JObj [(''title'', JArr [JObj [(''text'',
           JObj [(''content'', string_or ''Untitled'' (follow L [Key ''name'']))])]])]),
        (''Description'', JObj [(''rich_text'', JArr [JObj [(''text'',
           JObj [(''content'', string_or [] (follow L [Key ''description'']))])]])]),
        (''Status'', JObj [(''select'',
           JObj [(''name'', string_or ''Draft'' (follow L [Key ''status'']))])]),
        (''Tags'', JObj [(''multi_select'',
           JArr (map (\<lambda>tag. JObj [(''name'', tag)]) (elements (follow L [Key ''tags'']))))])])"
proof -
  from assms have L: "\<not> nullish L"
    by (cases L) (simp_all add: LocalRecord_shape_def)
  have chain: "follow L [Key k] = follow (read_prop L k) []" for k
    using L by simp
  have n: "js_or (read_prop L ''name'') (JStr ''Untitled'')
             = string_or ''Untitled'' (follow L [Key ''name''])"
    using assms unfolding LocalRecord_shape_def chain by (simp only: js_or_string_or)
  have d: "js_or (read_prop L ''description'') (JStr [])
             = string_or [] (follow L [Key ''description''])"
    using assms unfolding LocalRecord_shape_def chain by (simp only: js_or_string_or)
  have st: "js_or (read_prop L ''status'') (JStr ''Draft'')
             = string_or ''Draft'' (follow L [Key ''status''])"
    using assms unfolding LocalRecord_shape_def chain by (simp only: js_or_string_or)
  have t: "opt_array is_string (follow (read_prop L ''tags'') [])"
    using assms unfolding LocalRecord_shape_def chain by simp
  have tg: "call_map ''(useCaseData.tags || []).map'' (js_or (read_prop L ''tags'') (JArr []))
              (\<lambda>tag. Inr (JObj [(''name'', tag)]))
            = Inr (map (\<lambda>tag. JObj [(''name'', tag)]) (elements (follow L [Key ''tags''])))"
  proof (cases "nullish (read_prop L ''tags'')")
    case True
    then show ?thesis
      unfolding chain by (cases "read_prop L ''tags''") (simp_all add: js_or_def call_map_def)
  next
    case False
    with t obtain ts where "read_prop L ''tags'' = JArr ts"
      by (cases "read_prop L ''tags''") simp_all
    then show ?thesis
      unfolding chain by (simp add: js_or_def call_map_def mapE_total)
  qed
  show ?thesis
    unfolding transformMCPToNotion_def
    by (simp add: get_not_nullish [OF L] n d st tg del: follow.simps)
qed

lemma mapE_names:
  "mapE (\<lambda>tag. get tag ''name'') (map (\<lambda>t. JObj [(''name'', g t)]) xs) = Inr (map g xs)"
  by (induction xs) (simp_all add: get_def read_prop_def)

lemma mapE_wrap:
  "mapE (\<lambda>tag. Inr (JObj [(''name'', tag)])) (map g xs) =
     Inr (map (\<lambda>t. JObj [(''name'', g t)]) xs)"
  by (induction xs) simp_all

text \<open>
  C5.  \<^verbatim>\<open>transformMCPToNotion({})\<close> is the remote-schema properties object with name
  \<^verbatim>\<open>"Untitled"\<close>, description \<^verbatim>\<open>""\<close>, status \<^verbatim>\<open>"Draft"\<close> and no tags, and
  \<^verbatim>\<open>transformNotionToMCP({id:"p1", properties:{}, createdTime:"t1", lastEditedTime:"t2"})\<close>
  is exactly
  \<^verbatim>\<open>{notionPageId:"p1", name:"", description:"", status:"", tags:[], createdAt:"t1", updatedAt:"t2"}\<close>.
\<close>

theorem transform_defaults:
  "transformMCPToNotion (JObj []) =
     Inr (JObj
       [(''Name'', JObj [(''title'',
           JArr [JObj [(''text'', JObj [(''content'', JStr ''Untitled'')])]])]),
        (''Description'', JObj [(''rich_text'',
           JArr [JObj [(''text'', JObj [(''content'', JStr [])])]])]),
        (''Status'', JObj [(''select'', JObj [(''name'', JStr ''Draft'')])]),
        (''Tags'', JObj [(''multi_select'', JArr [])])])
   \<and> transformNotionToMCP
       (JObj [(''id'', JStr ''p1''), (''properties'', JObj []),
              (''createdTime'', JStr ''t1''), (''lastEditedTime'', JStr ''t2'')]) =
     Inr (JObj
       [(''notionPageId'', JStr ''p1''), (''name'', JStr []), (''description'', JStr []),
        (''status'', JStr []), (''tags'', JArr []),
        (''createdAt'', JStr ''t1''), (''updatedAt'', JStr ''t2'')])"
  by (simp add: transformMCPToNotion_def transformNotionToMCP_def js_read_defs)

text \<open>
  C4.  Round trip.  Let \<open>L\<close> be a local record whose \<^verbatim>\<open>name\<close>, \<^verbatim>\<open>description\<close> and \<^verbatim>\<open>status\<close>
  are non-empty strings and whose \<^verbatim>\<open>tags\<close> is a non-empty array of strings.  Transform it
  with \<^verbatim>\<open>transformMCPToNotion\<close>, store the properties in a page, read the page back as
  \<^verbatim>\<open>fetchNotionRecords\<close> maps it, and transform the result with \<^verbatim>\<open>transformNotionToMCP\<close>:
  the name, the description and the status are those of \<open>L\<close>, and the tags are the tags
  of \<open>L\<close>, here even in the same order.
\<close>

theorem round_trip:
  assumes "get L ''name'' = Inr (JStr n)" and "n \<noteq> []"
    and "get L ''description'' = Inr (JStr d)" and "d \<noteq> []"
    and "get L ''status'' = Inr (JStr st)" and "st \<noteq> []"
    and "get L ''tags'' = Inr (JArr (map JStr ts))" and "ts \<noteq> []"
  shows "bindE (transformMCPToNotion L) (\<lambda>properties.
         bindE (page_record (JObj [(''id'', pid), (''properties'', properties),
                                   (''created_time'', ct), (''last_edited_time'', lt)]))
           transformNotionToMCP)
       = Inr (JObj [(''notionPageId'', pid), (''name'', JStr n), (''description'', JStr d),
                    (''status'', JStr st), (''tags'', JArr (map JStr ts)),
                    (''createdAt'', ct), (''updatedAt'', lt)])"
proof -
  from assms have L: "\<not> nullish L"
    and f: "read_prop L ''name'' = JStr n" "read_prop L ''description'' = JStr d"
      "read_prop L ''status'' = JStr st" "read_prop L ''tags'' = JArr (map JStr ts)"
    by (simp_all add: get_Inr_iff)
  have fwd: "transformMCPToNotion L =
     Inr (JObj
       [(''Name'', JObj [(''title'', JArr [JObj [(''text'', JObj [(''content'', JStr n)])]])]),
        (''Description'', JObj [(''rich_text'',
            JArr [JObj [(''text'', JObj [(''content'', JStr d)])]])]),
        (''Status'', JObj [(''select'', JObj [(''name'', JStr st)])]),
        (''Tags'', JObj [(''multi_select'',
            JArr (map (\<lambda>t. JObj [(''name'', JStr t)]) ts))])])"
    using assms(2,4,6)
    by (simp add: transformMCPToNotion_def get_not_nullish [OF L] f js_or_def call_map_def
          mapE_wrap)
  show ?thesis
    using assms(2,4,6)
    by (simp add: fwd page_record_def transformNotionToMCP_def get_object read_prop_def
          opt_get_def opt_idx0_def idx0_def js_or_def opt_call_map_def call_map_def mapE_names)
qed

theorem round_trip_witness:
  "bindE (transformMCPToNotion
            (JObj [(''name'', JStr ''Churn model''), (''description'', JStr ''Weekly scoring''),
                   (''status'', JStr ''Active''), (''tags'', JArr [JStr ''ml'', JStr ''crm''])]))
     (\<lambda>properties.
        bindE (page_record (JObj [(''id'', JStr ''p1''), (''properties'', properties),
                                  (''created_time'', JStr ''t1''),
                                  (''last_edited_time'', JStr ''t2'')]))
          transformNotionToMCP)
   = Inr (JObj [(''notionPageId'', JStr ''p1''), (''name'', JStr ''Churn model''),
                (''description'', JStr ''Weekly scoring''), (''status'', JStr ''Active''),
                (''tags'', JArr [JStr ''ml'', JStr ''crm'']),
                (''createdAt'', JStr ''t1''), (''updatedAt'', JStr ''t2'')])"
  using round_trip
          [where L = "JObj [(''name'', JStr ''Churn model''),
                            (''description'', JStr ''Weekly scoring''),
                            (''status'', JStr ''Active''),
                            (''tags'', JArr [JStr ''ml'', JStr ''crm''])]"
             and n = "''Churn model''" and d = "''Weekly scoring''" and st = "''Active''"
             and ts = "[''ml'', ''crm'']"
             and pid = "JStr ''p1''" and ct = "JStr ''t1''" and lt = "JStr ''t2''"]
  by (simp add: get_def read_prop_def)

text \<open>
  C6, as the code has it.  On a local record of the declared shape (an object whose
  \<^verbatim>\<open>name\<close>, \<^verbatim>\<open>description\<close> and \<^verbatim>\<open>status\<close> are strings or missing and whose \<^verbatim>\<open>tags\<close> is an
  array of strings or missing) \<^verbatim>\<open>transformMCPToNotion\<close> returns and does not throw.  On
  a remote record of the declared shape (an object with an object of properties, in
  which every step of the paths to the title text, the description text, the status
  name and the multi-select list may be missing, and whose multi-select options are
  objects) \<^verbatim>\<open>transformNotionToMCP\<close> returns and does not throw; \<^verbatim>\<open>name\<close>, \<^verbatim>\<open>description\<close> and
  \<^verbatim>\<open>status\<close> are the empty string when their path is missing, and \<^verbatim>\<open>tags\<close> is the empty
  array when the path to the list is missing.  The name of each option is copied as it
  is read, without a default.
\<close>

theorem transforms_total:
  "(LocalRecord_shape L \<longrightarrow>
      transformMCPToNotion L =
        Inr (JObj
         [(''Name'', JObj [(''title'', JArr [JObj [(''text'',
             JObj [(''content'', string_or ''Untitled'' (follow L [Key ''name'']))])]])]),
          (''Description'', JObj [(''rich_text'', JArr [JObj [(''text'',
             JObj [(''content'', string_or [] (follow L [Key ''description'']))])]])]),
          (''Status'', JObj [(''select'',
             JObj [(''name'', string_or ''Draft'' (follow L [Key ''status'']))])]),
          (''Tags'', JObj [(''multi_select'',
             JArr (map (\<lambda>tag. JObj [(''name'', tag)]) (elements (follow L [Key ''tags'']))))])]))
 \<and> (RemoteRecord_shape R \<longrightarrow>
      transformNotionToMCP R =
        Inr (JObj
         [(''notionPageId'', read_prop R ''id''),
          (''name'', string_or [] (follow (read_prop R ''properties'')
             [Key ''Name'', Key ''title'', First, Key ''text'', Key ''content''])),
          (''description'', string_or [] (follow (read_prop R ''properties'')
             [Key ''Description'', Key ''rich_text'', First, Key ''text'', Key ''content''])),
          (''status'', string_or [] (follow (read_prop R ''properties'')
             [Key ''Status'', Key ''select'', Key ''name''])),
          (''tags'', JArr (map (\<lambda>t. read_prop t ''name'')
             (elements (follow (read_prop R ''properties'')
                [Key ''Tags'', Key ''multi_select''])))),
          (''createdAt'', read_prop R ''createdTime''),
          (''updatedAt'', read_prop R ''lastEditedTime'')]))"
  using local_to_remote_shape [of L] remote_to_local_shape [of R] by blast

theorem transforms_total_witness:
  "transformMCPToNotion (JObj [(''name'', JStr ''Churn model''), (''tags'', JNull)]) =
     Inr (JObj
       [(''Name'', JObj [(''title'',
           JArr [JObj [(''text'', JObj [(''content'', JStr ''Churn model'')])]])]),
        (''Description'', JObj [(''rich_text'',
           JArr [JObj [(''text'', JObj [(''content'', JStr [])])]])]),
        (''Status'', JObj [(''select'', JObj [(''name'', JStr ''Draft'')])]),
        (''Tags'', JObj [(''multi_select'', JArr [])])])
   \<and> transformNotionToMCP
       (JObj [(''id'', JStr ''p1''),
              (''properties'', JObj
                 [(''Name'', JObj [(''title'', JArr [])]),
                  (''Status'', JObj [(''select'', JNull)]),
                  (''Tags'', JObj [(''multi_select'', JArr [JObj [(''name'', JStr ''ml'')]])])]),
              (''createdTime'', JStr ''t1''), (''lastEditedTime'', JStr ''t2'')]) =
     Inr (JObj
       [(''notionPageId'', JStr ''p1''), (''name'', JStr []), (''description'', JStr []),
        (''status'', JStr []), (''tags'', JArr [JStr ''ml'']),
        (''createdAt'', JStr ''t1''), (''updatedAt'', JStr ''t2'')])"
  using transforms_total
    [where L = "JObj [(''name'', JStr ''Churn model''), (''tags'', JNull)]"
       and R = "JObj [(''id'', JStr ''p1''),
               (''properties'', JObj
                  [(''Name'', JObj [(''title'', JArr [])]),
                   (''Status'', JObj [(''select'', JNull)]),
                   (''Tags'', JObj [(''multi_select'', JArr [JObj [(''name'', JStr ''ml'')]])])]),
               (''createdTime'', JStr ''t1''), (''lastEditedTime'', JStr ''t2'')]"]
  by (simp add: LocalRecord_shape_def RemoteRecord_shape_def read_prop_def idx0_def)

text \<open>
  The claim as the specification words it fails on a multi-select option that has no
  \<^verbatim>\<open>name\<close>: the missing name is not replaced by a default, the tags come back as
  \<^verbatim>\<open>[undefined]\<close>.
\<close>

theorem transforms_total_counterexample:
  "transformNotionToMCP
     (JObj [(''id'', JStr ''p1''),
            (''properties'', JObj [(''Tags'', JObj [(''multi_select'', JArr [JObj []])])]),
            (''createdTime'', JStr ''t1''), (''lastEditedTime'', JStr ''t2'')]) =
   Inr (JObj
     [(''notionPageId'', JStr ''p1''), (''name'', JStr []), (''description'', JStr []),
      (''status'', JStr []), (''tags'', JArr [JUndefined]),
      (''createdAt'', JStr ''t1''), (''updatedAt'', JStr ''t2'')])"
  by (simp add: transformNotionToMCP_def js_read_defs)

section \<open>Properties of fetch and push\<close>

lemma ensure_client_available:
  "notion s \<noteq> None \<or> apiKey cfg \<noteq> [] \<Longrightarrow>
   ensure_client cfg s = (Inr (), s\<lparr>notion := Some (client_of cfg s)\<rparr>)"
  by (cases "notion s") (auto simp: ensure_client_def initializeClient_def client_of_def)

lemma ensure_client_missing:
  "notion s = None \<Longrightarrow> apiKey cfg = [] \<Longrightarrow>
   ensure_client cfg s = (Inl missing_credential, s)"
  by (simp add: ensure_client_def initializeClient_def missing_credential_def)

lemma pushNotionRecord_available:
  assumes "notion s \<noteq> None \<or> apiKey cfg \<noteq> []"
  shows "pushNotionRecord cfg api dbId data pageId s =
           (api (client_of cfg s) (calls s) (push_request cfg dbId data pageId),
            s\<lparr>notion := Some (client_of cfg s),
              calls := calls s @ [push_request cfg dbId data pageId]\<rparr>)"
  using assms
  by (cases pageId)
     (simp_all add: pushNotionRecord_def ensure_client_available remote_call_def
        push_request_def param_default_def js_or_def Let_def)

lemma pushNotionRecord_missing:
  "notion s = None \<Longrightarrow> apiKey cfg = [] \<Longrightarrow>
   pushNotionRecord cfg api dbId data pageId s = (Inl missing_credential, s)"
  by (simp add: pushNotionRecord_def ensure_client_missing)

lemma fetchNotionRecords_missing:
  "notion s = None \<Longrightarrow> apiKey cfg = [] \<Longrightarrow>
   fetchNotionRecords cfg api dbId flt s = (Inl missing_credential, s)"
  by (simp add: fetchNotionRecords_def ensure_client_missing)

lemma fetchNotionRecords_available:
  assumes "notion s \<noteq> None \<or> apiKey cfg \<noteq> []"
  shows "fetchNotionRecords cfg api dbId flt s =
           (bindE (api (client_of cfg s) (calls s) (query_request cfg dbId flt))
              (\<lambda>response. bindE (get response ''results'')
                 (\<lambda>results. call_map ''response.results.map'' results page_record)),
            s\<lparr>notion := Some (client_of cfg s),
              calls := calls s @ [query_request cfg dbId flt]\<rparr>)"
  using assms
  by (cases flt)
     (auto simp add: fetchNotionRecords_def ensure_client_available remote_call_def
        query_request_def param_default_def js_or_def bindE_def Let_def split: sum.splits)

lemma fetchNotionRecords_calls:
  "calls (snd (fetchNotionRecords cfg api dbId flt s)) = calls s
   \<or> (\<exists>q. calls (snd (fetchNotionRecords cfg api dbId flt s)) = calls s @ [DatabasesQuery q])"
  by (auto simp: fetchNotionRecords_def ensure_client_def initializeClient_def remote_call_def
        Let_def split: sum.splits prod.splits option.splits if_splits)

text \<open>
  C7.  Once a client can be had (one is cached, or a key is configured),
  \<^verbatim>\<open>pushNotionRecord\<close> sends exactly one request and hands back what the remote service
  answers to it, response or error, as it is.  With a page id that is present the
  request is an update of that page with the given properties; with no page id
  (\<open>undefined\<close> or \<open>null\<close>) it is a create under the given database, or under the
  configured one when none is given, with the given properties.
\<close>

theorem push_branch_selection:
  assumes "notion s \<noteq> None \<or> apiKey cfg \<noteq> []"
  shows "(truthy pageId \<longrightarrow>
            pushNotionRecord cfg api dbId data pageId s =
              (api (client_of cfg s) (calls s)
                 (PagesUpdate (JObj [(''page_id'', pageId), (''properties'', data)])),
               s\<lparr>notion := Some (client_of cfg s),
                 calls := calls s @
                   [PagesUpdate (JObj [(''page_id'', pageId), (''properties'', data)])]\<rparr>))
       \<and> (pageId = JUndefined \<or> pageId = JNull \<longrightarrow>
            pushNotionRecord cfg api dbId data pageId s =
              (api (client_of cfg s) (calls s)
                 (PagesCreate (JObj
                    [(''parent'', JObj [(''database_id'', js_or dbId (JStr (databaseId cfg)))]),
                     (''properties'', data)])),
               s\<lparr>notion := Some (client_of cfg s),
                 calls := calls s @ [PagesCreate (JObj
                    [(''parent'', JObj [(''database_id'', js_or dbId (JStr (databaseId cfg)))]),
                     (''properties'', data)])]\<rparr>))"
  using pushNotionRecord_available [OF assms, of api dbId data pageId]
  by (auto simp: push_request_def js_or_def)

theorem push_branch_selection_witness:
  "pushNotionRecord example_config example_remote (JStr ''db-1'')
     (JObj [(''Name'', JStr ''A'')]) (JStr ''page-123'') fresh =
     (Inr (JObj [(''object'', JStr ''page''), (''id'', JStr ''page-123'')]),
      \<lparr>notion = Some (Client ''secret''),
        calls = [PagesUpdate (JObj [(''page_id'', JStr ''page-123''),
                                   (''properties'', JObj [(''Name'', JStr ''A'')])])]\<rparr>)
   \<and> pushNotionRecord example_config example_remote (JStr ''db-1'')
       (JObj [(''Name'', JStr ''A'')]) JUndefined fresh =
     (Inr (JObj [(''object'', JStr ''page''), (''id'', JStr ''new'')]),
      \<lparr>notion = Some (Client ''secret''),
        calls = [PagesCreate (JObj [(''parent'', JObj [(''database_id'', JStr ''db-1'')]),
                                   (''properties'', JObj [(''Name'', JStr ''A'')])])]\<rparr>)"
  using push_branch_selection
          [where s = fresh and cfg = example_config and api = example_remote
             and dbId = "JStr ''db-1''" and data = "JObj [(''Name'', JStr ''A'')]"
             and pageId = "JStr ''page-123''"]
        push_branch_selection
          [where s = fresh and cfg = example_config and api = example_remote
             and dbId = "JStr ''db-1''" and data = "JObj [(''Name'', JStr ''A'')]"
             and pageId = JUndefined]
  by (simp add: example_defs client_of_def js_or_def read_prop_def)

text \<open>
  C8.  Once a client can be had, \<^verbatim>\<open>fetchNotionRecords\<close> sends exactly one request, a
  query.  Its \<^verbatim>\<open>database_id\<close> is the configured default when the database id is omitted
  or the empty string, and the given id when that is a non-empty string.  A filter
  object is passed as the query's \<^verbatim>\<open>filter\<close> unchanged; with no filter (\<open>undefined\<close> or
  \<open>null\<close>) the query has no \<^verbatim>\<open>filter\<close> at all.
\<close>

theorem fetch_query:
  assumes "notion s \<noteq> None \<or> apiKey cfg \<noteq> []"
  shows "((dbId = JUndefined \<or> dbId = JStr []) \<and> (flt = JUndefined \<or> flt = JNull) \<longrightarrow>
            calls (snd (fetchNotionRecords cfg api dbId flt s)) =
              calls s @ [DatabasesQuery (JObj [(''database_id'', JStr (databaseId cfg))])])
       \<and> ((dbId = JUndefined \<or> dbId = JStr []) \<and> flt = JObj fs \<longrightarrow>
            calls (snd (fetchNotionRecords cfg api dbId flt s)) =
              calls s @ [DatabasesQuery (JObj [(''database_id'', JStr (databaseId cfg)),
                                               (''filter'', JObj fs)])])
       \<and> (dbId = JStr d \<and> d \<noteq> [] \<and> (flt = JUndefined \<or> flt = JNull) \<longrightarrow>
            calls (snd (fetchNotionRecords cfg api dbId flt s)) =
              calls s @ [DatabasesQuery (JObj [(''database_id'', JStr d)])])
       \<and> (dbId = JStr d \<and> d \<noteq> [] \<and> flt = JObj fs \<longrightarrow>
            calls (snd (fetchNotionRecords cfg api dbId flt s)) =
              calls s @ [DatabasesQuery (JObj [(''database_id'', JStr d),
                                               (''filter'', JObj fs)])])"
  using fetchNotionRecords_available [OF assms, of api dbId flt]
  by (auto simp: query_request_def)

theorem fetch_query_witness:
  "calls (snd (fetchNotionRecords example_config example_remote JUndefined JUndefined fresh)) =
     [DatabasesQuery (JObj [(''database_id'', JStr ''db-default'')])]
   \<and> calls (snd (fetchNotionRecords example_config example_remote (JStr [])
                   (JObj [(''property'', JStr ''Status'')]) fresh)) =
     [DatabasesQuery (JObj [(''database_id'', JStr ''db-default''),
                            (''filter'', JObj [(''property'', JStr ''Status'')])])]
   \<and> calls (snd (fetchNotionRecords example_config example_remote (JStr ''explicit-id'')
                   JNull fresh)) =
     [DatabasesQuery (JObj [(''database_id'', JStr ''explicit-id'')])]
   \<and> calls (snd (fetchNotionRecords example_config example_remote (JStr ''explicit-id'')
                   (JObj [(''property'', JStr ''Status'')]) fresh)) =
     [DatabasesQuery (JObj [(''database_id'', JStr ''explicit-id''),
                            (''filter'', JObj [(''property'', JStr ''Status'')])])]"
  using fetch_query [where s = fresh and cfg = example_config and api = example_remote
                       and dbId = JUndefined and flt = JUndefined]
        fetch_query [where s = fresh and cfg = example_config and api = example_remote
                       and dbId = "JStr []" and flt = "JObj [(''property'', JStr ''Status'')]"
                       and fs = "[(''property'', JStr ''Status'')]"]
        fetch_query [where s = fresh and cfg = example_config and api = example_remote
                       and dbId = "JStr ''explicit-id''" and flt = JNull
                       and d = "''explicit-id''"]
        fetch_query [where s = fresh and cfg = example_config and api = example_remote
                       and dbId = "JStr ''explicit-id''"
                       and flt = "JObj [(''property'', JStr ''Status'')]"
                       and fs = "[(''property'', JStr ''Status'')]" and d = "''explicit-id''"]
  by (simp add: example_defs)

section \<open>Properties of the synchronisation\<close>

lemma push_loop_attempts:
  "push_loop cfg api dbId recs res s =
     (res\<lparr>pushed := pushed res @ responses (attempts cfg api dbId recs s),
          errors := errors res @ failures (attempts cfg api dbId recs s)\<rparr>,
      world_after cfg api dbId recs s)"
proof (induction recs arbitrary: res s)
  case Nil
  show ?case by simp
next
  case (Cons r rs)
  obtain out s' where step: "push_attempt cfg api dbId r s = (out, s')"
    by (cases "push_attempt cfg api dbId r s")
  show ?case
  proof (cases out)
    case (Inl e)
    with step Cons.IH show ?thesis by simp
  next
    case (Inr response)
    with step Cons.IH show ?thesis by simp
  qed
qed

lemma map_fst_attempts: "map fst (attempts cfg api dbId recs s) = recs"
  by (induction recs arbitrary: s) simp_all

lemma responses_failures_length:
  "length (responses outs) + length (failures outs) = length outs"
  by (induction outs rule: responses.induct) simp_all

lemma pushNotionRecord_raw:
  assumes "pushNotionRecord cfg api dbId data pageId s = (Inr response, s')"
  shows "\<exists>cl c. api cl (calls s) c = Inr response"
proof (cases "notion s \<noteq> None \<or> apiKey cfg \<noteq> []")
  case True
  from pushNotionRecord_available [OF True, of api dbId data pageId] assms
  have "api (client_of cfg s) (calls s) (push_request cfg dbId data pageId) = Inr response"
    by simp
  then show ?thesis by blast
next
  case False
  then have "pushNotionRecord cfg api dbId data pageId s = (Inl missing_credential, s)"
    by (simp add: pushNotionRecord_missing)
  with assms show ?thesis by simp
qed

lemma push_attempt_raw:
  assumes "push_attempt cfg api dbId r s = (Inr response, s')"
  shows "\<exists>cl c. api cl (calls s) c = Inr response"
  using assms pushNotionRecord_raw
  by (fastforce simp: push_attempt_def split: sum.splits)

lemma attempts_raw:
  assumes "(r, Inr response) \<in> set (attempts cfg api dbId recs s)"
  shows "\<exists>cl sent c. api cl sent c = Inr response"
  using assms
proof (induction recs arbitrary: s)
  case Nil
  then show ?case by simp
next
  case (Cons a rs)
  from Cons.prems
  consider "fst (push_attempt cfg api dbId a s) = Inr response"
    | "(r, Inr response) \<in> set (attempts cfg api dbId rs (snd (push_attempt cfg api dbId a s)))"
    by auto
  then show ?case
  proof cases
    case 1
    then have "push_attempt cfg api dbId a s = (Inr response, snd (push_attempt cfg api dbId a s))"
      by (metis prod.collapse)
    then show ?thesis using push_attempt_raw by blast
  next
    case 2
    then show ?thesis by (rule Cons.IH)
  qed
qed

lemma sync_push_only:
  assumes "get options ''direction'' = Inr (JStr ''push'')"
    and "get options ''mcpRecords'' = Inr (JArr recs)"
  shows "syncNotionData cfg api options s =
           (case push_loop cfg api (read_prop options ''databaseId'') recs
                   \<lparr>pulled = [], pushed = [], errors = []\<rparr> s of
              (results, s') \<Rightarrow> (Inr results, s'))"
proof -
  from assms have o: "\<not> nullish options"
    and d: "read_prop options ''direction'' = JStr ''push''"
    and m: "read_prop options ''mcpRecords'' = JArr recs"
    by (simp_all add: get_Inr_iff)
  show ?thesis
    by (simp add: syncNotionData_def destructure_not_nullish [OF o] d m param_default_def iterate_def
          Let_def)
qed

text \<open>
  C1.  \<^verbatim>\<open>syncNotionData\<close> with direction \<^verbatim>\<open>'push'\<close> and the records \<open>recs\<close>, whatever the
  remote service answers and whatever the records are: the call returns, nothing is
  pulled, every record is attempted once and in input order (the attempts are one per
  record, on the records themselves), \<^verbatim>\<open>pushed\<close> holds the responses of the attempts that
  succeeded, each one a response of the remote service as it came, \<^verbatim>\<open>errors\<close> holds
  \<^verbatim>\<open>{ record, error: message }\<close> for the attempts that failed, both in the order of the
  attempts, and every record is in one of the two lists.
\<close>

theorem push_isolation:
  assumes "get options ''direction'' = Inr (JStr ''push'')"
    and "get options ''mcpRecords'' = Inr (JArr recs)"
  shows "syncNotionData cfg api options s =
           (Inr \<lparr>pulled = [],
                 pushed = responses (attempts cfg api (read_prop options ''databaseId'') recs s),
                 errors = failures (attempts cfg api (read_prop options ''databaseId'') recs s)\<rparr>,
            world_after cfg api (read_prop options ''databaseId'') recs s)
         \<and> map fst (attempts cfg api (read_prop options ''databaseId'') recs s) = recs
         \<and> length (responses (attempts cfg api (read_prop options ''databaseId'') recs s))
           + length (failures (attempts cfg api (read_prop options ''databaseId'') recs s))
           = length recs
         \<and> (\<forall>r response.
               (r, Inr response) \<in> set (attempts cfg api (read_prop options ''databaseId'') recs s)
               \<longrightarrow> (\<exists>cl sent c. api cl sent c = Inr response))"
proof -
  let ?outs = "attempts cfg api (read_prop options ''databaseId'') recs s"
  have "length ?outs = length recs"
    using map_fst_attempts [of cfg api "read_prop options ''databaseId''" recs s]
    by (metis length_map)
  then have "length (responses ?outs) + length (failures ?outs) = length recs"
    by (simp add: responses_failures_length)
  moreover have "syncNotionData cfg api options s =
      (Inr \<lparr>pulled = [], pushed = responses ?outs, errors = failures ?outs\<rparr>,
       world_after cfg api (read_prop options ''databaseId'') recs s)"
    using assms by (simp add: sync_push_only push_loop_attempts)
  moreover have "\<forall>r response. (r, Inr response) \<in> set ?outs
                   \<longrightarrow> (\<exists>cl sent c. api cl sent c = Inr response)"
    using attempts_raw by blast
  ultimately show ?thesis
    by (simp add: map_fst_attempts)
qed

theorem push_isolation_witness:
  "syncNotionData example_config example_remote
     (JObj [(''direction'', JStr ''push''),
            (''mcpRecords'', JArr [record_A, record_B, record_C])]) fresh =
     (Inr \<lparr>pulled = [],
           pushed = [JObj [(''object'', JStr ''page''), (''id'', JStr ''page-A'')],
                     JObj [(''object'', JStr ''page''), (''id'', JStr ''new'')]],
           errors = [JObj [(''record'', record_B), (''error'', JStr ''validation_error'')]]\<rparr>,
      \<lparr>notion = Some (Client ''secret''),
        calls = [PagesUpdate (JObj [(''page_id'', JStr ''page-A''),
                                   (''properties'', JObj [(''Name'', JStr ''A'')])]),
                 PagesCreate (JObj [(''parent'', JObj [(''database_id'', JStr ''db-default'')]),
                                   (''properties'', JObj [])]),
                 PagesCreate (JObj [(''parent'', JObj [(''database_id'', JStr ''db-default'')]),
                                   (''properties'', JObj [(''Name'', JStr ''C'')])])]\<rparr>)"
  using push_isolation
          [where options = "JObj [(''direction'', JStr ''push''),
                                  (''mcpRecords'', JArr [record_A, record_B, record_C])]"
             and recs = "[record_A, record_B, record_C]"
             and cfg = example_config and api = example_remote and s = fresh]
  by (simp add: example_defs request_defs sync_defs js_read_defs Let_def)

text \<open>
  C2.  When the direction is \<^verbatim>\<open>'pull'\<close> (also by default) or \<^verbatim>\<open>'bidirectional'\<close> and the
  pull, \<^verbatim>\<open>fetchNotionRecords(databaseId)\<close>, throws an error, \<^verbatim>\<open>syncNotionData\<close> throws that
  same error and returns no result; it ends in the state the pull left, so no push was
  attempted: the requests sent are those sent before, and at most the one query.
\<close>

theorem pull_failure_propagates:
  assumes "get options ''direction'' = Inr d"
    and "d = JUndefined \<or> d = JStr ''pull'' \<or> d = JStr ''bidirectional''"
    and "fetchNotionRecords cfg api (read_prop options ''databaseId'') JUndefined s = (Inl e, s1)"
  shows "syncNotionData cfg api options s = (Inl e, s1)
         \<and> (calls s1 = calls s \<or> (\<exists>q. calls s1 = calls s @ [DatabasesQuery q]))"
proof -
  from assms(1) have o: "\<not> nullish options" and d: "read_prop options ''direction'' = d"
    by (simp_all add: get_Inr_iff)
  have "syncNotionData cfg api options s = (Inl e, s1)"
    using assms(2,3)
    by (auto simp: syncNotionData_def destructure_not_nullish [OF o] d param_default_def Let_def)
  moreover have "calls s1 = calls s \<or> (\<exists>q. calls s1 = calls s @ [DatabasesQuery q])"
    using fetchNotionRecords_calls [of cfg api "read_prop options ''databaseId''" JUndefined s]
      assms(3) by simp
  ultimately show ?thesis by simp
qed

theorem pull_failure_propagates_witness:
  "syncNotionData example_config example_remote
     (JObj [(''direction'', JStr ''bidirectional''),
            (''mcpRecords'', JArr [record_A, record_B, record_C])]) fresh =
     (Inl (Error ''service_unavailable''),
      \<lparr>notion = Some (Client ''secret''),
        calls = [DatabasesQuery (JObj [(''database_id'', JStr ''db-default'')])]\<rparr>)"
proof -
  have h: "fetchNotionRecords example_config example_remote
             (read_prop (JObj [(''direction'', JStr ''bidirectional''),
                               (''mcpRecords'', JArr [record_A, record_B, record_C])])
                ''databaseId'') JUndefined fresh =
           (Inl (Error ''service_unavailable''),
            \<lparr>notion = Some (Client ''secret''),
              calls = [DatabasesQuery (JObj [(''database_id'', JStr ''db-default'')])]\<rparr>)"
    by (simp add: example_defs request_defs js_read_defs Let_def)
  show ?thesis
    using pull_failure_propagates
            [where options = "JObj [(''direction'', JStr ''bidirectional''),
                                    (''mcpRecords'', JArr [record_A, record_B, record_C])]"
               and d = "JStr ''bidirectional''" and cfg = example_config
               and api = example_remote and s = fresh, OF _ _ h]
    by (simp add: get_def read_prop_def)
qed

text \<open>
  C9.  With a direction that is given and is none of \<^verbatim>\<open>'pull'\<close>, \<^verbatim>\<open>'push'\<close> and
  \<^verbatim>\<open>'bidirectional'\<close>, \<^verbatim>\<open>syncNotionData\<close> returns the empty result and leaves the state as
  it was: no request is sent, and no client is built either.
\<close>

theorem sync_unrecognized_direction:
  assumes "get options ''direction'' = Inr d"
    and "d \<noteq> JUndefined" and "d \<noteq> JStr ''pull''" and "d \<noteq> JStr ''push''"
    and "d \<noteq> JStr ''bidirectional''"
  shows "syncNotionData cfg api options s =
           (Inr \<lparr>pulled = [], pushed = [], errors = []\<rparr>, s)"
proof -
  from assms(1) have o: "\<not> nullish options" and d: "read_prop options ''direction'' = d"
    by (simp_all add: get_Inr_iff)
  show ?thesis
    using assms(2-5)
    by (simp add: syncNotionData_def destructure_not_nullish [OF o] d param_default_def Let_def)
qed

theorem sync_unrecognized_direction_witness:
  "syncNotionData example_config example_remote
     (JObj [(''direction'', JStr ''both''), (''mcpRecords'', JArr [record_A])]) fresh =
     (Inr \<lparr>pulled = [], pushed = [], errors = []\<rparr>, fresh)"
  using sync_unrecognized_direction
          [where options = "JObj [(''direction'', JStr ''both''),
                                  (''mcpRecords'', JArr [record_A])]"
             and d = "JStr ''both''" and cfg = example_config and api = example_remote
             and s = fresh]
  by (simp add: get_def read_prop_def)

section \<open>The credential gate and the page id\<close>

text \<open>No key is configured when the environment variable is not set or is empty.\<close>

lemma notionConfig_no_key:
  "apiKey (notionConfig k d) = [] \<longleftrightarrow> k = None \<or> k = Some []"
  by (simp add: notionConfig_def env_or_def split: option.splits)

lemma push_attempt_missing:
  assumes "notion s = None" and "apiKey cfg = []"
  shows "push_attempt cfg api dbId r s =
           (Inl (if nullish r then cannot_read r ''properties'' else missing_credential), s)"
  using assms by (simp add: push_attempt_def get_def pushNotionRecord_missing)

lemma attempts_missing:
  assumes "notion s = None" and "apiKey cfg = []"
  shows "attempts cfg api dbId recs s =
           map (\<lambda>r. (r, Inl (if nullish r then cannot_read r ''properties''
                               else missing_credential))) recs
         \<and> world_after cfg api dbId recs s = s"
  using assms by (induction recs) (simp_all add: push_attempt_missing)

lemma responses_all_failed: "responses (map (\<lambda>r. (r, Inl (f r))) recs) = []"
  by (induction recs) simp_all

lemma failures_all_failed:
  "failures (map (\<lambda>r. (r, Inl (f r))) recs) = map (\<lambda>r. error_entry r (f r)) recs"
  by (induction recs) simp_all

text \<open>
  C3, as the code has it.  With no key configured (and so no client built):
  \<^verbatim>\<open>fetchNotionRecords\<close> and \<^verbatim>\<open>pushNotionRecord\<close> throw the missing-credential error and
  send nothing; \<^verbatim>\<open>syncNotionData\<close> with a direction that pulls throws it too and sends
  nothing; \<^verbatim>\<open>syncNotionData\<close> with direction \<^verbatim>\<open>'push'\<close> sends nothing either, but it
  returns: nothing is pushed, and every record has its entry in \<^verbatim>\<open>errors\<close>, with the
  message of the missing-credential error (for a record that is \<open>undefined\<close> or \<open>null\<close>,
  with the message of reading its properties).
\<close>

theorem credential_gate:
  assumes "apiKey cfg = []" and "notion s = None"
  shows "fetchNotionRecords cfg api dbId flt s =
           (Inl (Error ''NOTION_API_KEY environment variable is required''), s)
       \<and> pushNotionRecord cfg api dbId data pageId s =
           (Inl (Error ''NOTION_API_KEY environment variable is required''), s)
       \<and> (get options ''direction'' = Inr d
            \<and> (d = JUndefined \<or> d = JStr ''pull'' \<or> d = JStr ''bidirectional'')
          \<longrightarrow> syncNotionData cfg api options s =
                (Inl (Error ''NOTION_API_KEY environment variable is required''), s))
       \<and> (get options ''direction'' = Inr (JStr ''push'')
            \<and> get options ''mcpRecords'' = Inr (JArr recs)
          \<longrightarrow> syncNotionData cfg api options s =
                (Inr \<lparr>pulled = [], pushed = [],
                      errors = map (\<lambda>r. error_entry r
                                 (if nullish r then cannot_read r ''properties''
                                  else Error ''NOTION_API_KEY environment variable is required''))
                               recs\<rparr>, s))"
proof -
  have f: "fetchNotionRecords cfg api dbId flt s = (Inl missing_credential, s)" for dbId flt
    using assms by (simp add: fetchNotionRecords_missing)
  have p: "pushNotionRecord cfg api dbId data pageId s = (Inl missing_credential, s)"
    using assms by (simp add: pushNotionRecord_missing)
  have pull: "syncNotionData cfg api options s = (Inl missing_credential, s)"
    if "get options ''direction'' = Inr d"
      and "d = JUndefined \<or> d = JStr ''pull'' \<or> d = JStr ''bidirectional''"
  proof -
    from that(1) have o: "\<not> nullish options" and d: "read_prop options ''direction'' = d"
      by (simp_all add: get_Inr_iff)
    show ?thesis
      using that(2)
      by (auto simp: syncNotionData_def destructure_not_nullish [OF o] d param_default_def Let_def f)
  qed
  have push: "syncNotionData cfg api options s =
                (Inr \<lparr>pulled = [], pushed = [],
                      errors = map (\<lambda>r. error_entry r
                                 (if nullish r then cannot_read r ''properties''
                                  else missing_credential)) recs\<rparr>, s)"
    if "get options ''direction'' = Inr (JStr ''push'')"
      and "get options ''mcpRecords'' = Inr (JArr recs)"
    using that assms
    by (simp add: sync_push_only push_loop_attempts attempts_missing
          responses_all_failed failures_all_failed)
  show ?thesis
    using f p pull push by (simp add: missing_credential_def)
qed

theorem credential_gate_witness:
  "fetchNotionRecords no_credential example_remote (JStr ''db-1'') JUndefined fresh =
     (Inl (Error ''NOTION_API_KEY environment variable is required''), fresh)
   \<and> pushNotionRecord no_credential example_remote (JStr ''db-1'')
       (JObj [(''Name'', JStr ''A'')]) (JStr ''page-123'') fresh =
     (Inl (Error ''NOTION_API_KEY environment variable is required''), fresh)
   \<and> syncNotionData no_credential example_remote
       (JObj [(''direction'', JStr ''bidirectional''), (''mcpRecords'', JArr [record_A])])
       fresh =
     (Inl (Error ''NOTION_API_KEY environment variable is required''), fresh)
   \<and> syncNotionData no_credential example_remote
       (JObj [(''direction'', JStr ''push''), (''mcpRecords'', JArr [record_A, record_B])])
       fresh =
     (Inr \<lparr>pulled = [], pushed = [],
           errors = [JObj [(''record'', record_A),
                           (''error'', JStr ''NOTION_API_KEY environment variable is required'')],
                     JObj [(''record'', record_B),
                           (''error'', JStr ''NOTION_API_KEY environment variable is required'')]]\<rparr>,
      fresh)"
  using credential_gate
          [where cfg = no_credential and s = fresh and api = example_remote
             and dbId = "JStr ''db-1''" and flt = JUndefined
             and data = "JObj [(''Name'', JStr ''A'')]" and pageId = "JStr ''page-123''"
             and options = "JObj [(''direction'', JStr ''bidirectional''),
                                  (''mcpRecords'', JArr [record_A])]"
             and d = "JStr ''bidirectional''"]
        credential_gate
          [where cfg = no_credential and s = fresh and api = example_remote
             and options = "JObj [(''direction'', JStr ''push''),
                                  (''mcpRecords'', JArr [record_A, record_B])]"
             and recs = "[record_A, record_B]"]
  by (simp add: example_defs get_def read_prop_def error_entry_def)

text \<open>
  The claim as the specification words it fails for a push-only synchronisation: with
  no key configured and one record to push, \<^verbatim>\<open>syncNotionData\<close> does not throw, it returns
  a result whose \<^verbatim>\<open>errors\<close> holds the record.
\<close>

theorem credential_gate_counterexample:
  "syncNotionData no_credential example_remote
     (JObj [(''direction'', JStr ''push''), (''mcpRecords'', JArr [record_A])]) fresh =
     (Inr \<lparr>pulled = [], pushed = [],
           errors = [JObj [(''record'', record_A),
                           (''error'', JStr ''NOTION_API_KEY environment variable is required'')]]\<rparr>,
      fresh)"
  by (simp add: example_defs request_defs sync_defs js_read_defs Let_def)

lemma push_attempt_nullish:
  "nullish r \<Longrightarrow> push_attempt cfg api dbId r s = (Inl (cannot_read r ''properties''), s)"
  by (simp add: push_attempt_def get_def)

lemma push_attempt_general:
  assumes "notion s \<noteq> None \<or> apiKey cfg \<noteq> []" and "\<not> nullish r"
  shows "push_attempt cfg api dbId r s =
           (api (client_of cfg s) (calls s)
              (push_request cfg dbId (read_prop r ''properties'')
                 (js_or (read_prop r ''notionPageId'') JNull)),
            s\<lparr>notion := Some (client_of cfg s),
              calls := calls s @
                [push_request cfg dbId (read_prop r ''properties'')
                   (js_or (read_prop r ''notionPageId'') JNull)]\<rparr>)"
  using assms
  by (simp add: push_attempt_def get_not_nullish pushNotionRecord_available)

lemma world_after_general:
  assumes "notion s \<noteq> None \<or> apiKey cfg \<noteq> []"
  shows "calls (world_after cfg api dbId recs s) =
           calls s @ map (\<lambda>r. push_request cfg dbId (read_prop r ''properties'')
                                (js_or (read_prop r ''notionPageId'') JNull))
                         (filter (\<lambda>r. \<not> nullish r) recs)"
  using assms
proof (induction recs arbitrary: s)
  case Nil
  show ?case by simp
next
  case (Cons r rs)
  show ?case
  proof (cases "nullish r")
    case True
    then have "snd (push_attempt cfg api dbId r s) = s"
      by (simp add: push_attempt_nullish)
    with True Cons.IH [OF Cons.prems] show ?thesis by simp
  next
    case False
    let ?q = "push_request cfg dbId (read_prop r ''properties'')
                (js_or (read_prop r ''notionPageId'') JNull)"
    let ?s' = "s\<lparr>notion := Some (client_of cfg s), calls := calls s @ [?q]\<rparr>"
    have step: "snd (push_attempt cfg api dbId r s) = ?s'"
      using Cons.prems False by (simp add: push_attempt_general)
    have "calls (world_after cfg api dbId rs ?s') =
            calls ?s' @ map (\<lambda>r. push_request cfg dbId (read_prop r ''properties'')
                                   (js_or (read_prop r ''notionPageId'') JNull))
                            (filter (\<lambda>r. \<not> nullish r) rs)"
      by (intro Cons.IH) simp
    with False show ?thesis by (simp add: step)
  qed
qed

lemma sync_bidirectional:
  assumes "get options ''direction'' = Inr (JStr ''bidirectional'')"
    and "get options ''mcpRecords'' = Inr (JArr recs)"
    and "fetchNotionRecords cfg api (read_prop options ''databaseId'') JUndefined s
           = (Inr records, s1)"
  shows "syncNotionData cfg api options s =
           (case push_loop cfg api (read_prop options ''databaseId'') recs
                   \<lparr>pulled = records, pushed = [], errors = []\<rparr> s1 of
              (results, s') \<Rightarrow> (Inr results, s'))"
proof -
  from assms have o: "\<not> nullish options"
    and d: "read_prop options ''direction'' = JStr ''bidirectional''"
    and m: "read_prop options ''mcpRecords'' = JArr recs"
    by (simp_all add: get_Inr_iff)
  show ?thesis
    by (simp add: syncNotionData_def destructure_not_nullish [OF o] d m param_default_def
          iterate_def Let_def assms(3))
qed

text \<open>
  C10.  Whether a page id is present is its truthiness.  Once a client can be had,
  \<^verbatim>\<open>pushNotionRecord\<close> with a page id that is not truthy (the empty string, \<open>null\<close>,
  \<open>undefined\<close>, \<open>false\<close>, \<open>0\<close>) sends a create under the database, not an update.  And
  whenever \<^verbatim>\<open>syncNotionData\<close> pushes, with direction \<^verbatim>\<open>'push'\<close> or, after a pull that
  succeeded, with direction \<^verbatim>\<open>'bidirectional'\<close>, it sends one request per record, in
  input order and whatever the other records of the batch are: a create under the
  database, with the record's properties, for a record whose \<^verbatim>\<open>notionPageId\<close> is not
  truthy, and an update of that page for a record whose \<^verbatim>\<open>notionPageId\<close> is truthy.  (A
  record that is itself \<open>undefined\<close> or \<open>null\<close> sends nothing.)
\<close>

theorem falsy_page_id_creates:
  assumes "notion s \<noteq> None \<or> apiKey cfg \<noteq> []"
  shows "(\<not> truthy pageId \<longrightarrow>
            pushNotionRecord cfg api dbId data pageId s =
              (api (client_of cfg s) (calls s)
                 (PagesCreate (JObj
                    [(''parent'', JObj [(''database_id'', js_or dbId (JStr (databaseId cfg)))]),
                     (''properties'', data)])),
               s\<lparr>notion := Some (client_of cfg s),
                 calls := calls s @ [PagesCreate (JObj
                    [(''parent'', JObj [(''database_id'', js_or dbId (JStr (databaseId cfg)))]),
                     (''properties'', data)])]\<rparr>))
       \<and> (get options ''direction'' = Inr (JStr ''push'')
            \<and> get options ''mcpRecords'' = Inr (JArr recs)
          \<longrightarrow> calls (snd (syncNotionData cfg api options s)) =
                calls s @
                map (\<lambda>r. if truthy (read_prop r ''notionPageId'')
                          then PagesUpdate (JObj
                                 [(''page_id'', read_prop r ''notionPageId''),
                                  (''properties'', read_prop r ''properties'')])
                          else PagesCreate (JObj
                                 [(''parent'', JObj [(''database_id'',
                                     js_or (read_prop options ''databaseId'')
                                           (JStr (databaseId cfg)))]),
                                  (''properties'', read_prop r ''properties'')]))
                    (filter (\<lambda>r. \<not> nullish r) recs))
       \<and> (get options ''direction'' = Inr (JStr ''bidirectional'')
            \<and> get options ''mcpRecords'' = Inr (JArr recs)
            \<and> fst (fetchNotionRecords cfg api (read_prop options ''databaseId'') JUndefined s)
                = Inr records
          \<longrightarrow> calls (snd (syncNotionData cfg api options s)) =
                calls s @
                DatabasesQuery (JObj [(''database_id'',
                    js_or (read_prop options ''databaseId'') (JStr (databaseId cfg)))])
                # map (\<lambda>r. if truthy (read_prop r ''notionPageId'')
                            then PagesUpdate (JObj
                                   [(''page_id'', read_prop r ''notionPageId''),
                                    (''properties'', read_prop r ''properties'')])
                            else PagesCreate (JObj
                                   [(''parent'', JObj [(''database_id'',
                                       js_or (read_prop options ''databaseId'')
                                             (JStr (databaseId cfg)))]),
                                    (''properties'', read_prop r ''properties'')]))
                      (filter (\<lambda>r. \<not> nullish r) recs))"
proof -
  let ?db = "read_prop options ''databaseId''"
  have req: "push_request cfg d (read_prop r ''properties'')
               (js_or (read_prop r ''notionPageId'') JNull) =
             (if truthy (read_prop r ''notionPageId'')
              then PagesUpdate (JObj [(''page_id'', read_prop r ''notionPageId''),
                                      (''properties'', read_prop r ''properties'')])
              else PagesCreate (JObj
                     [(''parent'', JObj [(''database_id'', js_or d (JStr (databaseId cfg)))]),
                      (''properties'', read_prop r ''properties'')]))" for d r
    by (simp add: push_request_def js_or_def)
  have a: "pushNotionRecord cfg api dbId data pageId s =
              (api (client_of cfg s) (calls s) (push_request cfg dbId data pageId),
               s\<lparr>notion := Some (client_of cfg s),
                 calls := calls s @ [push_request cfg dbId data pageId]\<rparr>)"
    using assms by (rule pushNotionRecord_available)
  have b: "calls (snd (syncNotionData cfg api options s)) =
             calls s @ map (\<lambda>r. push_request cfg ?db (read_prop r ''properties'')
                                  (js_or (read_prop r ''notionPageId'') JNull))
                           (filter (\<lambda>r. \<not> nullish r) recs)"
    if "get options ''direction'' = Inr (JStr ''push'')"
      and "get options ''mcpRecords'' = Inr (JArr recs)"
    using that assms
    by (simp add: sync_push_only push_loop_attempts world_after_general)
  have c: "calls (snd (syncNotionData cfg api options s)) =
             calls s @ query_request cfg ?db JUndefined
             # map (\<lambda>r. push_request cfg ?db (read_prop r ''properties'')
                          (js_or (read_prop r ''notionPageId'') JNull))
                   (filter (\<lambda>r. \<not> nullish r) recs)"
    if d: "get options ''direction'' = Inr (JStr ''bidirectional'')"
      and m: "get options ''mcpRecords'' = Inr (JArr recs)"
      and f: "fst (fetchNotionRecords cfg api ?db JUndefined s) = Inr records"
  proof -
    let ?s1 = "s\<lparr>notion := Some (client_of cfg s),
                 calls := calls s @ [query_request cfg ?db JUndefined]\<rparr>"
    have "snd (fetchNotionRecords cfg api ?db JUndefined s) = ?s1"
      using fetchNotionRecords_available [OF assms, of api ?db JUndefined] by simp
    with f have "fetchNotionRecords cfg api ?db JUndefined s = (Inr records, ?s1)"
      by (metis prod.collapse)
    from sync_bidirectional [OF d m this]
    have "calls (snd (syncNotionData cfg api options s)) =
            calls (world_after cfg api ?db recs ?s1)"
      by (simp add: push_loop_attempts)
    also have "\<dots> = calls ?s1 @ map (\<lambda>r. push_request cfg ?db (read_prop r ''properties'')
                                        (js_or (read_prop r ''notionPageId'') JNull))
                                 (filter (\<lambda>r. \<not> nullish r) recs)"
      by (intro world_after_general) simp
    finally show ?thesis by simp
  qed
  have q: "query_request cfg ?db JUndefined =
             DatabasesQuery (JObj [(''database_id'', js_or ?db (JStr (databaseId cfg)))])"
    by (simp add: query_request_def js_or_def)
  show ?thesis
    using a b c unfolding req q by (simp add: push_request_def js_or_def)
qed

theorem falsy_page_id_creates_witness:
  "pushNotionRecord example_config example_remote (JStr ''db-1'')
     (JObj [(''Name'', JStr ''A'')]) (JStr []) fresh =
     (Inr (JObj [(''object'', JStr ''page''), (''id'', JStr ''new'')]),
      \<lparr>notion = Some (Client ''secret''),
        calls = [PagesCreate (JObj [(''parent'', JObj [(''database_id'', JStr ''db-1'')]),
                                   (''properties'', JObj [(''Name'', JStr ''A'')])])]\<rparr>)
   \<and> calls (snd (syncNotionData example_config example_remote
                   (JObj [(''direction'', JStr ''push''),
                          (''mcpRecords'', JArr [record_A, record_C, record_B])]) fresh)) =
     [PagesUpdate (JObj [(''page_id'', JStr ''page-A''),
                         (''properties'', JObj [(''Name'', JStr ''A'')])]),
      PagesCreate (JObj [(''parent'', JObj [(''database_id'', JStr ''db-default'')]),
                         (''properties'', JObj [(''Name'', JStr ''C'')])]),
      PagesCreate (JObj [(''parent'', JObj [(''database_id'', JStr ''db-default'')]),
                         (''properties'', JObj [])])]
   \<and> calls (snd (syncNotionData example_config answering_remote
                   (JObj [(''direction'', JStr ''bidirectional''),
                          (''mcpRecords'', JArr [record_C, record_A])]) fresh)) =
     [DatabasesQuery (JObj [(''database_id'', JStr ''db-default'')]),
      PagesCreate (JObj [(''parent'', JObj [(''database_id'', JStr ''db-default'')]),
                         (''properties'', JObj [(''Name'', JStr ''C'')])]),
      PagesUpdate (JObj [(''page_id'', JStr ''page-A''),
                         (''properties'', JObj [(''Name'', JStr ''A'')])])]"
proof -
  have h: "fst (fetchNotionRecords example_config answering_remote
                  (read_prop (JObj [(''direction'', JStr ''bidirectional''),
                                    (''mcpRecords'', JArr [record_C, record_A])])
                     ''databaseId'') JUndefined fresh) = Inr []"
    by (simp add: example_defs answering_remote_def request_defs js_read_defs Let_def)
  show ?thesis
    using falsy_page_id_creates
            [where s = fresh and cfg = example_config and api = example_remote
               and dbId = "JStr ''db-1''" and data = "JObj [(''Name'', JStr ''A'')]"
               and pageId = "JStr []"
               and options = "JObj [(''direction'', JStr ''push''),
                                    (''mcpRecords'', JArr [record_A, record_C, record_B])]"
               and recs = "[record_A, record_C, record_B]"]
          falsy_page_id_creates
            [where s = fresh and cfg = example_config and api = answering_remote
               and options = "JObj [(''direction'', JStr ''bidirectional''),
                                    (''mcpRecords'', JArr [record_C, record_A])]"
               and recs = "[record_C, record_A]" and records = "[]"]
          h
    by (simp add: example_defs client_of_def js_or_def get_def read_prop_def)
qed

end
